theory Spec2Isabelle
  imports Complex_Main
begin

section \<open>JavaScript values read by the components\<close>

text \<open>
  Numbers that arrive in a JSON payload are finite doubles; they are modelled as rationals
  with exact arithmetic. A field that the component reads through a fallback
  (\<^verbatim>\<open>x || d\<close>) may be absent and is an \<open>option\<close>; a field it reads bare is part of the
  payload's contract and is a plain field.
\<close>

definition or_num :: "rat \<Rightarrow> rat \<Rightarrow> rat" where
  \<comment> \<open>\<^verbatim>\<open>x || d\<close> on a number that is present: 0 is falsy.\<close>
  "or_num x d = (if x = 0 then d else x)"

definition num_or :: "rat option \<Rightarrow> rat \<Rightarrow> rat" where
  \<comment> \<open>\<^verbatim>\<open>x || d\<close> on a number that may be absent: undefined, null and 0 are falsy.\<close>
  "num_or v d = (case v of None \<Rightarrow> d | Some x \<Rightarrow> or_num x d)"

definition list_or_empty :: "'a list option \<Rightarrow> 'a list" where
  \<comment> \<open>\<^verbatim>\<open>xs || []\<close> on an array: every array, also the empty one, is truthy.\<close>
  "list_or_empty v = (case v of None \<Rightarrow> [] | Some xs \<Rightarrow> xs)"

definition str_truthy :: "string option \<Rightarrow> bool" where
  \<comment> \<open>undefined, null and the empty string are falsy.\<close>
  "str_truthy v = (case v of None \<Rightarrow> False | Some s \<Rightarrow> s \<noteq> [])"

text \<open>
  A division can leave the finite numbers: \<^verbatim>\<open>a / 0\<close> is an infinity or NaN, and every
  comparison with NaN is false. The sign of a zero divisor is taken as positive (a
  bounding rectangle has no negative extent).
\<close>

datatype jsnum = Fin rat | PosInf | NegInf | NaN

definition js_div :: "rat \<Rightarrow> rat \<Rightarrow> jsnum" where
  "js_div a b =
     (if b \<noteq> 0 then Fin (a / b)
      else if 0 < a then PosInf else if a < 0 then NegInf else NaN)"

fun js_times :: "jsnum \<Rightarrow> rat \<Rightarrow> jsnum" where
  "js_times (Fin a) c = Fin (a * c)"
| "js_times PosInf c = (if 0 < c then PosInf else if c < 0 then NegInf else NaN)"
| "js_times NegInf c = (if 0 < c then NegInf else if c < 0 then PosInf else NaN)"
| "js_times NaN c = NaN"

fun js_ge :: "jsnum \<Rightarrow> rat \<Rightarrow> bool" where
  "js_ge (Fin a) c = (c \<le> a)"
| "js_ge PosInf c = True"
| "js_ge NegInf c = False"
| "js_ge NaN c = False"

fun js_le :: "jsnum \<Rightarrow> rat \<Rightarrow> bool" where
  "js_le (Fin a) c = (a \<le> c)"
| "js_le PosInf c = False"
| "js_le NegInf c = True"
| "js_le NaN c = False"

text \<open>
  Numbers in text. \<^verbatim>\<open>${n}\<close> prints an integer in decimal; \<^verbatim>\<open>x.toFixed(1)\<close> prints
  the sign, then the integer \<open>n\<close> nearest to ten times the magnitude (the larger one on
  a tie), with a point before its last digit. Magnitudes from \<open>10\<^sup>2\<^sup>1\<close> on, which the
  engine prints with an exponent, are beyond every score and distance and are not modelled.
\<close>

definition digit_char :: "nat \<Rightarrow> char" where
  "digit_char d = ''0123456789'' ! (d mod 10)"

fun show_nat :: "nat \<Rightarrow> string" where
  "show_nat n =
     (if n < 10 then [digit_char n] else show_nat (n div 10) @ [digit_char (n mod 10)])"

declare show_nat.simps [simp del]

definition show_int :: "int \<Rightarrow> string" where
  "show_int i = (if i < 0 then ''-'' @ show_nat (nat (- i)) else show_nat (nat i))"

definition toFixed1 :: "rat \<Rightarrow> string" where
  "toFixed1 x =
     (let n = nat \<lfloor>\<bar>x\<bar> * 10 + 1 / 2\<rfloor>
      in (if x < 0 then ''-'' else []) @ show_nat (n div 10) @ ''.'' @ [digit_char (n mod 10)])"

section \<open>The result payload\<close>

record player =
  track_id :: int
  bbox :: "rat \<times> rat \<times> rat \<times> rat"
  openscore :: "rat option"

record frame =
  frame_id :: int
  players :: "player list option"

record statistics =
  total_receivers_tracked :: rat
  avg_openscore_all_receivers :: rat
  total_players_detected :: rat

record best_option =
  bo_receiver :: string
  bo_avg_openscore :: rat
  bo_max_openscore :: rat
  bo_consistency :: rat

record missed_opportunity =
  mo_receiver :: string
  mo_peak_openscore :: rat
  mo_avg_openscore :: rat
  mo_note :: string

record key_moment =
  km_frame :: int
  km_description :: string
  km_openscore :: rat

record player_context =
  nearest_defender_distance :: rat
  num_nearby_defenders :: int
  closing_speed :: rat

record feedback =
  overall_grade :: string
  overall_score :: rat
  summary :: string
  statistics :: statistics
  strengths :: "string list"
  areas_for_improvement :: "string list"
  recommendations :: "string list"
  best_options :: "best_option list"
  missed_opportunities :: "missed_opportunity list"
  key_moments :: "key_moment list"
  ai_openscore_explanations :: "(string \<rightharpoonup> string) option"
  player_contexts :: "(string \<rightharpoonup> player_context) option"

text \<open>
  \<open>results_body\<close> is \<^verbatim>\<open>results.results\<close> (its fields \<^verbatim>\<open>feedback\<close>, \<^verbatim>\<open>fps\<close>,
  \<^verbatim>\<open>frame_data\<close>, \<^verbatim>\<open>video_width\<close> and \<^verbatim>\<open>video_height\<close> carry the prefix \<open>rb_\<close> here),
  \<open>results_response\<close> the object that the results endpoint returns and that the
  component receives as its \<^verbatim>\<open>results\<close> prop.
\<close>

record results_body =
  rb_feedback :: feedback
  rb_fps :: "rat option"
  rb_frame_data :: "frame list option"
  rb_video_width :: "rat option"
  rb_video_height :: "rat option"

record results_response =
  rr_results :: "results_body option"

definition fps_of :: "results_body \<Rightarrow> rat" where
  \<comment> \<open>\<^verbatim>\<open>const fps = results.results.fps || 30\<close>\<close>
  "fps_of r = num_or (rb_fps r) 30"

definition frameData_of :: "results_body \<Rightarrow> frame list" where
  \<comment> \<open>\<^verbatim>\<open>const frameData = results.results.frame_data || []\<close>\<close>
  "frameData_of r = list_or_empty (rb_frame_data r)"

definition sourceWidth :: "results_body \<Rightarrow> rat" where
  \<comment> \<open>\<^verbatim>\<open>const sourceWidth = results.results.video_width || 0\<close>\<close>
  "sourceWidth r = num_or (rb_video_width r) 0"

definition sourceHeight :: "results_body \<Rightarrow> rat" where
  \<comment> \<open>\<^verbatim>\<open>const sourceHeight = results.results.video_height || 0\<close>\<close>
  "sourceHeight r = num_or (rb_video_height r) 0"

section \<open>AnalysisResults: the frame-to-players map\<close>

text \<open>
  \<^verbatim>\<open>frameData.forEach((frame) => { map.set(frame.frame_id, frame.players || []); })\<close>
  on a fresh \<^verbatim>\<open>Map\<close>: the loop walks the list front to back and \<^verbatim>\<open>set\<close> replaces the
  value of a key that is already there.
\<close>

fun framePlayerMap_from ::
  "(int \<rightharpoonup> player list) \<Rightarrow> frame list \<Rightarrow> (int \<rightharpoonup> player list)" where
  "framePlayerMap_from m [] = m"
| "framePlayerMap_from m (fr # frs) =
     framePlayerMap_from (m(frame_id fr \<mapsto> list_or_empty (players fr))) frs"

definition framePlayerMap :: "frame list \<Rightarrow> (int \<rightharpoonup> player list)" where
  "framePlayerMap frameData = framePlayerMap_from Map.empty frameData"

record video_el =
  currentTime :: rat
  paused :: bool
  videoWidth :: rat
  videoHeight :: rat

definition frameIdAt :: "rat \<Rightarrow> rat \<Rightarrow> int" where
  \<comment> \<open>\<^verbatim>\<open>Math.max(0, Math.floor(videoEl.currentTime * fps))\<close>\<close>
  "frameIdAt t fps = max 0 \<lfloor>t * fps\<rfloor>"

definition map_get_or_empty :: "(int \<rightharpoonup> player list) \<Rightarrow> int \<Rightarrow> player list" where
  \<comment> \<open>\<^verbatim>\<open>framePlayerMap.get(frameId) || []\<close>: \<^verbatim>\<open>get\<close> returns undefined for a missing key.\<close>
  "map_get_or_empty m k = list_or_empty (m k)"

record view_state =
  activePlayers :: "player list"
  hoveredPlayer :: "player option"
  tooltipPos :: "rat \<times> rat"

definition updateActivePlayersForCurrentTime ::
  "results_body \<Rightarrow> video_el option \<Rightarrow> view_state \<Rightarrow> view_state" where
  \<comment> \<open>A closure of the component over the payload \<open>r\<close>. Without a video element the
      handler returns before it sets anything.\<close>
  "updateActivePlayersForCurrentTime r videoEl st =
     (case videoEl of
        None \<Rightarrow> st
      | Some v \<Rightarrow>
          st\<lparr>activePlayers :=
               map_get_or_empty (framePlayerMap (frameData_of r))
                 (frameIdAt (currentTime v) (fps_of r))\<rparr>)"

section \<open>AnalysisResults: hover hit-testing\<close>

record dom_rect =
  rect_left :: rat
  rect_top :: rat
  rect_width :: rat
  rect_height :: rat

record mouse_event =
  clientX :: rat
  clientY :: rat

definition nativeSize :: "rat \<Rightarrow> rat \<Rightarrow> rat" where
  \<comment> \<open>\<^verbatim>\<open>sourceWidth || videoEl.videoWidth || 1\<close>, and the same for the height.\<close>
  "nativeSize source intrinsic = or_num (or_num source intrinsic) 1"

definition cursorPoint ::
  "dom_rect \<Rightarrow> rat \<Rightarrow> rat \<Rightarrow> video_el \<Rightarrow> mouse_event \<Rightarrow> jsnum \<times> jsnum" where
  \<comment> \<open>The cursor in the video's native pixel coordinates, \<^verbatim>\<open>(px, py)\<close>.\<close>
  "cursorPoint rect srcWidth srcHeight v event =
     (let relX = clientX event - rect_left rect;
          relY = clientY event - rect_top rect;
          nativeWidth = nativeSize srcWidth (videoWidth v);
          nativeHeight = nativeSize srcHeight (videoHeight v)
      in (js_times (js_div relX (rect_width rect)) nativeWidth,
          js_times (js_div relY (rect_height rect)) nativeHeight))"

definition hitTest :: "jsnum \<times> jsnum \<Rightarrow> player \<Rightarrow> bool" where
  \<comment> \<open>The predicate given to \<^verbatim>\<open>activePlayers.find\<close>.\<close>
  "hitTest pt player =
     (case (pt, bbox player) of
        ((px, py), (x1, y1, x2, y2)) \<Rightarrow> js_ge px x1 \<and> js_le px x2 \<and> js_ge py y1 \<and> js_le py y2)"

definition handleOverlayMouseMove ::
  "results_body \<Rightarrow> video_el option \<Rightarrow> dom_rect option \<Rightarrow> mouse_event \<Rightarrow> view_state
     \<Rightarrow> view_state" where
  \<comment> \<open>A closure of the component over the payload \<open>r\<close>. The overlay element is given
      by its bounding client rectangle.\<close>
  "handleOverlayMouseMove r videoEl overlayEl event st =
     (case videoEl of
        None \<Rightarrow> st\<lparr>hoveredPlayer := None\<rparr>
      | Some v \<Rightarrow>
         (case overlayEl of
            None \<Rightarrow> st\<lparr>hoveredPlayer := None\<rparr>
          | Some rect \<Rightarrow>
              if \<not> paused v then st\<lparr>hoveredPlayer := None\<rparr>
              else
                (case find (hitTest (cursorPoint rect (sourceWidth r) (sourceHeight r) v event))
                        (activePlayers st) of
                   None \<Rightarrow> st\<lparr>hoveredPlayer := None\<rparr>
                 | Some hitPlayer \<Rightarrow>
                     st\<lparr>hoveredPlayer := Some hitPlayer,
                        tooltipPos := (clientX event - rect_left rect,
                                       clientY event - rect_top rect)\<rparr>)))"

text \<open>
  A hit in the words of the specification: the point lies in the box, bounds included.
\<close>

definition box_contains :: "player \<Rightarrow> rat \<Rightarrow> rat \<Rightarrow> bool" where
  "box_contains p px py =
     (case bbox p of (x1, y1, x2, y2) \<Rightarrow> x1 \<le> px \<and> px \<le> x2 \<and> y1 \<le> py \<and> py \<le> y2)"

section \<open>AnalysisResults: the player tooltip\<close>

definition getScoreColor :: "rat \<Rightarrow> string" where
  "getScoreColor score =
     (if 70 \<le> score then ''#22c55e''
      else if 50 \<le> score then ''#eab308''
      else if 30 \<le> score then ''#f97316''
      else ''#ef4444'')"

definition getScoreLabel :: "rat \<Rightarrow> string" where
  "getScoreLabel score =
     (if 80 \<le> score then ''Wide Open''
      else if 60 \<le> score then ''Open''
      else if 40 \<le> score then ''Contested''
      else if 20 \<le> score then ''Covered''
      else ''Locked Down'')"

definition aiOpenscoreExplanations :: "feedback \<Rightarrow> (string \<rightharpoonup> string)" where
  \<comment> \<open>\<^verbatim>\<open>feedback.ai_openscore_explanations || {}\<close>\<close>
  "aiOpenscoreExplanations fb =
     (case ai_openscore_explanations fb of None \<Rightarrow> Map.empty | Some m \<Rightarrow> m)"

definition playerContexts :: "feedback \<Rightarrow> (string \<rightharpoonup> player_context)" where
  \<comment> \<open>\<^verbatim>\<open>feedback.player_contexts || {}\<close>\<close>
  "playerContexts fb = (case player_contexts fb of None \<Rightarrow> Map.empty | Some m \<Rightarrow> m)"

definition pxPerYard :: rat where
  \<comment> \<open>\<^verbatim>\<open>const pxPerYard = 1920 / 53.3\<close>\<close>
  "pxPerYard = 1920 / (533 / 10)"

definition getPlayerTooltipExplanation :: "results_body \<Rightarrow> player \<Rightarrow> string option" where
  \<comment> \<open>A closure of the component: the whole payload is in its scope. It reads the
      feedback's two tables and nothing else.\<close>
  "getPlayerTooltipExplanation r player =
     (let playerId = ''player_'' @ show_int (track_id player);
          aiExplanation = aiOpenscoreExplanations (rb_feedback r) playerId
      in if str_truthy aiExplanation then aiExplanation
         else
           (case playerContexts (rb_feedback r) playerId of
              None \<Rightarrow> None
            | Some ctx \<Rightarrow>
                (let yards = toFixed1 (nearest_defender_distance ctx / pxPerYard);
                     nearby = num_nearby_defenders ctx;
                     closing = closing_speed ctx
                 in Some
                   (''Nearest defender: ~'' @ yards @ '' yds. '' @
                    (if nearby = 0 then ''No defenders in coverage zone. ''
                     else if nearby = 1 then ''1 defender nearby. ''
                     else show_int nearby @ '' defenders converging. '') @
                    (if 100 < closing then ''Defender closing fast.''
                     else if closing < - 50 then ''Defender moving away.''
                     else ''Defender holding position.'')))))"

text \<open>
  The tooltip as rendered for the hovered player. The revision that draws hover boxes
  shows a title with the track id, the score line and a fixed placeholder; the revision
  with AI explanations shows a coloured score line with a label, and the explanation when
  there is one.
\<close>

record tooltip =
  tip_left :: rat
  tip_top :: rat
  tip_title :: string
  tip_score_color :: "string option"
  tip_score_line :: string
  tip_score_label :: "string option"
  tip_note :: "string option"

definition playerTooltip :: "view_state \<Rightarrow> tooltip option" where
  "playerTooltip st =
     (case hoveredPlayer st of
        None \<Rightarrow> None
      | Some hovered \<Rightarrow>
          Some \<lparr>tip_left = fst (tooltipPos st) + 12,
                tip_top = snd (tooltipPos st) + 12,
                tip_title = ''Receiver #'' @ show_int (track_id hovered),
                tip_score_color = None,
                tip_score_line = ''OpenScore: '' @ toFixed1 (num_or (openscore hovered) 0),
                tip_score_label = None,
                tip_note = Some ''AI placeholder: Add LLM explanation here for route, leverage, and passing risk.''\<rparr>)"

definition playerTooltipAI :: "results_body \<Rightarrow> view_state \<Rightarrow> tooltip option" where
  "playerTooltipAI r st =
     (case hoveredPlayer st of
        None \<Rightarrow> None
      | Some hovered \<Rightarrow>
          Some \<lparr>tip_left = fst (tooltipPos st) + 12,
                tip_top = snd (tooltipPos st) + 12,
                tip_title = ''Receiver'',
                tip_score_color = Some (getScoreColor (num_or (openscore hovered) 0)),
                tip_score_line = ''OpenScore: '' @ toFixed1 (num_or (openscore hovered) 0),
                tip_score_label = Some (getScoreLabel (num_or (openscore hovered) 0)),
                tip_note =
                  (let explanation = getPlayerTooltipExplanation r hovered
                   in if str_truthy explanation then explanation else None)\<rparr>)"

section \<open>AnalysisResults: the rendered sections\<close>

definition getGradeColor :: "string \<Rightarrow> string" where
  "getGradeColor grade =
     (if grade = ''A'' then ''#22c55e''
      else if grade = ''B'' then ''#3b82f6''
      else if grade = ''C'' then ''#eab308''
      else if grade = ''D'' then ''#f97316''
      else if grade = ''F'' then ''#ef4444''
      else ''#6b7280'')"

definition API_BASE_URL :: string where
  "API_BASE_URL = ''http://localhost:8000''"

definition getDownloadUrl :: "string option \<Rightarrow> string" where
  \<comment> \<open>A template literal prints a null task id as \<^verbatim>\<open>null\<close>.\<close>
  "getDownloadUrl taskId =
     API_BASE_URL @ ''/api/download/'' @ (case taskId of None \<Rightarrow> ''null'' | Some t \<Rightarrow> t)"

record hover_box =
  box_key :: int
  box_left :: rat
  box_top :: rat
  box_width :: rat
  box_height :: rat

definition hoverBox :: "rat \<Rightarrow> rat \<Rightarrow> player \<Rightarrow> hover_box" where
  \<comment> \<open>The four style values are percentages of the overlay.\<close>
  "hoverBox width height player =
     (case bbox player of
        (x1, y1, x2, y2) \<Rightarrow>
          \<lparr>box_key = track_id player,
           box_left = x1 / width * 100,
           box_top = y1 / height * 100,
           box_width = (x2 - x1) / width * 100,
           box_height = (y2 - y1) / height * 100\<rparr>)"

definition hoverBoxes :: "results_body \<Rightarrow> video_el option \<Rightarrow> view_state \<Rightarrow> hover_box list" where
  \<comment> \<open>\<^verbatim>\<open>videoRef.current?.paused && activePlayers.map(...)\<close>\<close>
  "hoverBoxes r videoEl st =
     (case videoEl of
        None \<Rightarrow> []
      | Some v \<Rightarrow>
          if paused v
          then map (hoverBox (nativeSize (sourceWidth r) (videoWidth v))
                             (nativeSize (sourceHeight r) (videoHeight v)))
                   (activePlayers st)
          else [])"

text \<open>
  The output of the component, one constructor for each block of the JSX, with the values
  it interpolates. The sections from the grade card to the key moments are the same lines
  in the revision that ends with the annotated video player and in the one that ends with
  the download link.
\<close>

datatype element =
    Heading string
  | GradeSection string string rat string
  | StatsGrid rat string rat
  | FeedbackGrid "element list"
  | Strengths "string list"
  | Improvements "string list"
  | Recommendations "string list"
  | BestOptions "(nat \<times> best_option) list"
  | MissedOpportunities "missed_opportunity list"
  | KeyMoments "key_moment list"
  | VideoPlayerSection string "hover_box list" "tooltip option"
  | DownloadSection string

definition feedbackSections :: "feedback \<Rightarrow> element list" where
  "feedbackSections fb =
     [GradeSection (getGradeColor (overall_grade fb)) (overall_grade fb) (overall_score fb)
        (summary fb),
      StatsGrid (total_receivers_tracked (statistics fb))
        (toFixed1 (avg_openscore_all_receivers (statistics fb)))
        (total_players_detected (statistics fb)),
      FeedbackGrid
        ((if 0 < length (strengths fb) then [Strengths (strengths fb)] else []) @
         (if 0 < length (areas_for_improvement fb)
          then [Improvements (areas_for_improvement fb)] else []))] @
     (if 0 < length (recommendations fb) then [Recommendations (recommendations fb)] else []) @
     (if 0 < length (best_options fb) then [BestOptions (enumerate 1 (best_options fb))] else []) @
     (if 0 < length (missed_opportunities fb)
      then [MissedOpportunities (missed_opportunities fb)] else []) @
     (if 0 < length (key_moments fb) then [KeyMoments (key_moments fb)] else [])"

definition AnalysisResults ::
  "results_response option \<Rightarrow> string option \<Rightarrow> video_el option \<Rightarrow> view_state
     \<Rightarrow> element list option" where
  \<comment> \<open>\<open>None\<close> is \<^verbatim>\<open>return null\<close>: nothing is rendered.\<close>
  "AnalysisResults results taskId videoEl st =
     (case results of
        None \<Rightarrow> None
      | Some res \<Rightarrow>
         (case rr_results res of
            None \<Rightarrow> None
          | Some r \<Rightarrow>
              Some ([Heading ''Analysis Complete''] @ feedbackSections (rb_feedback r) @
                    [VideoPlayerSection (getDownloadUrl taskId) (hoverBoxes r videoEl st)
                       (playerTooltip st)])))"

definition AnalysisResultsDownload ::
  "results_response option \<Rightarrow> string option \<Rightarrow> element list option" where
  "AnalysisResultsDownload results taskId =
     (case results of
        None \<Rightarrow> None
      | Some res \<Rightarrow>
         (case rr_results res of
            None \<Rightarrow> None
          | Some r \<Rightarrow>
              Some ([Heading ''Analysis Complete''] @ feedbackSections (rb_feedback r) @
                    [DownloadSection (getDownloadUrl taskId)])))"

section \<open>App: upload, status polling and reset\<close>

record upload_response =
  up_task_id :: "string option"
  up_status :: "string option"

record status_data =
  sd_status :: "string option"
  sd_progress :: "rat option"
  sd_message :: "string option"

text \<open>
  A rejected request, as the handlers read it: \<^verbatim>\<open>err.response?.data?.detail\<close> and
  \<^verbatim>\<open>err.message\<close>.
\<close>

record api_error =
  err_detail :: "string option"
  err_message :: "string option"

definition str_or :: "string option \<Rightarrow> string \<Rightarrow> string" where
  \<comment> \<open>\<^verbatim>\<open>s || d\<close> on a string that may be absent.\<close>
  "str_or v d = (case v of None \<Rightarrow> d | Some s \<Rightarrow> if s = [] then d else s)"

record app_state =
  taskId :: "string option"
  status :: "string option"
  results :: "results_response option"
  error :: "string option"
  progress :: rat

definition initial_app :: app_state where
  "initial_app = \<lparr>taskId = None, status = None, results = None, error = None, progress = 0\<rparr>"

definition handleUploadSuccess :: "upload_response \<Rightarrow> app_state \<Rightarrow> app_state" where
  "handleUploadSuccess response s =
     s\<lparr>taskId := up_task_id response, status := up_status response, error := None,
       results := None, progress := 0\<rparr>"

definition handleUploadError :: "string option \<Rightarrow> app_state \<Rightarrow> app_state" where
  "handleUploadError errorMessage s = s\<lparr>error := errorMessage\<rparr>"

definition handleReset :: "app_state \<Rightarrow> app_state" where
  "handleReset s =
     s\<lparr>taskId := None, status := None, results := None, error := None, progress := 0\<rparr>"

definition getStatusMessage :: "app_state \<Rightarrow> string" where
  "getStatusMessage s =
     (if status s = Some ''queued'' then ''Video queued for processing...''
      else if status s = Some ''processing'' then ''Processing video...''
      else if status s = Some ''completed'' then ''Analysis complete!''
      else if status s = Some ''failed'' then ''Processing failed''
      else [])"

text \<open>
  The interval callback is an async function: it runs up to \<^verbatim>\<open>await getStatus(taskId)\<close>,
  and the rest runs when the request settles. The three definitions below are the state
  updates of its continuations: after the status arrived, after the results arrived, and
  in the \<^verbatim>\<open>catch\<close> block.
\<close>

definition onStatusData :: "status_data \<Rightarrow> app_state \<Rightarrow> app_state" where
  "onStatusData statusData s =
     (let s1 = s\<lparr>status := sd_status statusData,
                  progress := num_or (sd_progress statusData) 0\<rparr>
      in if sd_status statusData = Some ''completed'' then s1
         else if sd_status statusData = Some ''failed''
         then s1\<lparr>error := Some (str_or (sd_message statusData) ''Processing failed'')\<rparr>
         else s1)"

definition onResultsData :: "results_response \<Rightarrow> app_state \<Rightarrow> app_state" where
  "onResultsData resultsData s = s\<lparr>results := Some resultsData\<rparr>"

definition onPollError :: "api_error \<Rightarrow> app_state \<Rightarrow> app_state" where
  "onPollError err s =
     s\<lparr>error := Some (str_or (err_detail err) (str_or (err_message err) ''Failed to get status''))\<rparr>"

text \<open>What App renders inside its container, one constructor for each conditional block.\<close>

datatype app_section =
    UploadIntro
  | ProcessingSection string rat
  | ResultsSection results_response "string option"
  | ErrorSection string

definition App_render :: "app_state \<Rightarrow> app_section list" where
  "App_render s =
     (if \<not> str_truthy (taskId s) \<and> results s = None then [UploadIntro] else []) @
     (if str_truthy (taskId s) \<and> status s \<noteq> Some ''completed''
      then [ProcessingSection (getStatusMessage s) (progress s)] else []) @
     (case results s of
        None \<Rightarrow> []
      | Some res \<Rightarrow> if status s = Some ''completed'' then [ResultsSection res (taskId s)] else []) @
     (case error s of
        None \<Rightarrow> []
      | Some e \<Rightarrow> if e \<noteq> [] then [ErrorSection e] else [])"

text \<open>
  The polling effect, with dependencies \<^verbatim>\<open>[taskId, status]\<close>. After a render in which one
  of the two changed, the cleanup of the previous run clears its interval and the effect
  runs again: it returns at once when the task id is falsy or the status is completed or
  failed, and sets a new interval otherwise. An interval is known by a number; a callback
  keeps the interval of the effect run that created it (\<^verbatim>\<open>pollInterval\<close> in its closure),
  so \<^verbatim>\<open>clearInterval(pollInterval)\<close> stops the current interval only if it is still that
  one. \<^verbatim>\<open>setInterval\<close> does not wait for the callback's promise: a tick starts a new
  request whether or not earlier ones have settled, and clearing an interval does not
  cancel a request that is in flight.
\<close>

record client =
  app :: app_state
  interval :: "nat option"
  next_interval :: nat
  status_calls :: "(nat \<times> string option) list"
  results_calls :: "(nat \<times> string option) list"

definition initial_client :: client where
  "initial_client =
     \<lparr>app = initial_app, interval = None, next_interval = 0, status_calls = [],
      results_calls = []\<rparr>"

definition pollingWanted :: "app_state \<Rightarrow> bool" where
  \<comment> \<open>The negation of the effect's guard.\<close>
  "pollingWanted s =
     (str_truthy (taskId s) \<and> status s \<noteq> Some ''completed'' \<and> status s \<noteq> Some ''failed'')"

definition runEffect :: "app_state \<Rightarrow> client \<Rightarrow> client" where
  \<comment> \<open>The first argument is the state of the previous render.\<close>
  "runEffect prev c =
     (if taskId (app c) = taskId prev \<and> status (app c) = status prev then c
      else if pollingWanted (app c)
      then c\<lparr>interval := Some (next_interval c), next_interval := Suc (next_interval c)\<rparr>
      else c\<lparr>interval := None\<rparr>)"

definition clearInterval :: "nat \<Rightarrow> client \<Rightarrow> client" where
  "clearInterval k c = (if interval c = Some k then c\<lparr>interval := None\<rparr> else c)"

definition drop_nth :: "nat \<Rightarrow> 'a list \<Rightarrow> 'a list" where
  "drop_nth i xs = take i xs @ drop (Suc i) xs"

text \<open>
  What can happen to the client. A tick needs a live interval; a response or a failure
  needs a request in flight, named by its position among those outstanding; the upload
  component reports while it is rendered, and a reset needs one of the two buttons that
  call \<^verbatim>\<open>handleReset\<close>. \<open>None\<close> says that the event cannot happen in that state.
\<close>

datatype event =
    Tick
  | StatusArrives nat status_data
  | StatusFails nat api_error
  | ResultsArrive nat results_response
  | ResultsFail nat api_error
  | UploadSucceeds upload_response
  | UploadFails "string option"
  | ResetClicked

fun step :: "client \<Rightarrow> event \<Rightarrow> client option" where
  "step c Tick =
     (case interval c of
        None \<Rightarrow> None
      | Some k \<Rightarrow> Some (c\<lparr>status_calls := status_calls c @ [(k, taskId (app c))]\<rparr>))"
| "step c (StatusArrives i statusData) =
     (if i < length (status_calls c)
      then
        (let call = status_calls c ! i;
             c1 = c\<lparr>app := onStatusData statusData (app c),
                    status_calls := drop_nth i (status_calls c)\<rparr>
         in Some (runEffect (app c)
              (if sd_status statusData = Some ''completed''
               then c1\<lparr>results_calls := results_calls c1 @ [call]\<rparr>
               else if sd_status statusData = Some ''failed''
               then clearInterval (fst call) c1
               else c1)))
      else None)"
| "step c (StatusFails i err) =
     (if i < length (status_calls c)
      then Some (clearInterval (fst (status_calls c ! i))
             (c\<lparr>app := onPollError err (app c),
                status_calls := drop_nth i (status_calls c)\<rparr>))
      else None)"
| "step c (ResultsArrive j resultsData) =
     (if j < length (results_calls c)
      then Some (clearInterval (fst (results_calls c ! j))
             (c\<lparr>app := onResultsData resultsData (app c),
                results_calls := drop_nth j (results_calls c)\<rparr>))
      else None)"
| "step c (ResultsFail j err) =
     (if j < length (results_calls c)
      then Some (clearInterval (fst (results_calls c ! j))
             (c\<lparr>app := onPollError err (app c),
                results_calls := drop_nth j (results_calls c)\<rparr>))
      else None)"
| "step c (UploadSucceeds response) =
     (if \<not> str_truthy (taskId (app c)) \<and> results (app c) = None
      then Some (runEffect (app c) (c\<lparr>app := handleUploadSuccess response (app c)\<rparr>))
      else None)"
| "step c (UploadFails errorMessage) =
     (if \<not> str_truthy (taskId (app c)) \<and> results (app c) = None
      then Some (c\<lparr>app := handleUploadError errorMessage (app c)\<rparr>)
      else None)"
| "step c ResetClicked =
     (if (results (app c) \<noteq> None \<and> status (app c) = Some ''completed'') \<or>
         str_truthy (error (app c))
      then Some (runEffect (app c) (c\<lparr>app := handleReset (app c)\<rparr>))
      else None)"

fun run :: "client \<Rightarrow> event list \<Rightarrow> client option" where
  "run c [] = Some c"
| "run c (e # es) = (case step c e of None \<Rightarrow> None | Some c' \<Rightarrow> run c' es)"

section \<open>VideoUpload: the drop handler\<close>

text \<open>
  The dropzone is configured with \<^verbatim>\<open>accept: {'video/mp4': ['.mp4']}\<close>, \<^verbatim>\<open>maxFiles: 1\<close> and
  \<^verbatim>\<open>multiple: false\<close>; it sorts the dropped files into accepted files and rejections, each
  rejection with the errors that caused it, and calls \<^verbatim>\<open>onDrop\<close> with the two lists.
\<close>

record upload_file =
  file_name :: string
  file_type :: string
  file_size :: nat

record file_error =
  fe_code :: string
  fe_message :: string

record file_rejection =
  rej_file :: upload_file
  rej_errors :: "file_error list"

record upload_state =
  isUploading :: bool
  uploadError :: "string option"

text \<open>
  How the awaited part of the handler ends: the dynamic import of the API module can
  fail, and so can the request; both land in the \<^verbatim>\<open>catch\<close> block. (The later revision
  of the component imports the module statically and reports the upload's progress; its
  handler has the same branches without the failing import.)
\<close>

datatype upload_outcome =
    ImportFailed api_error
  | UploadFailed api_error
  | UploadResolved upload_response

text \<open>What the handler does to the world outside its own state, in order.\<close>

datatype upload_effect =
    PostUpload upload_file
  | CallOnUploadSuccess upload_response
  | CallOnUploadError string

datatype js_error = TypeError

record upload_props =
  has_onUploadSuccess :: bool
  has_onUploadError :: bool

definition rejectionMessage :: "file_error \<Rightarrow> string" where
  \<comment> \<open>The text given to \<^verbatim>\<open>setUploadError\<close> for the first error of the first rejection.\<close>
  "rejectionMessage err =
     (if fe_code err = ''file-invalid-type'' then ''Only MP4 files are allowed''
      else if fe_code err = ''too-many-files'' then ''Please upload only one file at a time''
      else fe_message err)"

definition onDrop ::
  "upload_props \<Rightarrow> (upload_file \<Rightarrow> upload_outcome) \<Rightarrow> upload_file list \<Rightarrow> file_rejection list
     \<Rightarrow> upload_state \<Rightarrow> js_error + upload_state \<times> upload_effect list" where
  \<comment> \<open>The second argument says how the upload of a file ends; \<open>firstFile\<close> is the
      handler's \<^verbatim>\<open>file\<close>, \<^verbatim>\<open>acceptedFiles[0]\<close>. The result is the
      component's state once the handler has run to its end, with the effects in order;
      reading \<^verbatim>\<open>error.code\<close> of a rejection without errors throws.\<close>
  "onDrop props uploadVideo acceptedFiles rejectedFiles st =
     (let st0 = st\<lparr>uploadError := None\<rparr>
      in case rejectedFiles of
           rejection # _ \<Rightarrow>
             (case rej_errors rejection of
                [] \<Rightarrow> Inl TypeError
              | err # _ \<Rightarrow>
                  Inr (st0\<lparr>uploadError := Some (rejectionMessage err)\<rparr>,
                       if has_onUploadError props then [CallOnUploadError (fe_message err)]
                       else []))
         | [] \<Rightarrow>
             (case acceptedFiles of
                [] \<Rightarrow> Inr (st0, [])
              | firstFile # _ \<Rightarrow>
                  (case uploadVideo firstFile of
                     UploadResolved response \<Rightarrow>
                       Inr (st0\<lparr>isUploading := False\<rparr>,
                            PostUpload firstFile #
                            (if has_onUploadSuccess props then [CallOnUploadSuccess response]
                             else []))
                   | UploadFailed e \<Rightarrow>
                       (let errorMessage =
                              str_or (err_detail e) (str_or (err_message e) ''Upload failed'')
                        in Inr (st0\<lparr>uploadError := Some errorMessage, isUploading := False\<rparr>,
                                PostUpload firstFile #
                                (if has_onUploadError props then [CallOnUploadError errorMessage]
                                 else [])))
                   | ImportFailed e \<Rightarrow>
                       (let errorMessage =
                              str_or (err_detail e) (str_or (err_message e) ''Upload failed'')
                        in Inr (st0\<lparr>uploadError := Some errorMessage, isUploading := False\<rparr>,
                                if has_onUploadError props then [CallOnUploadError errorMessage]
                                else [])))))"

section \<open>Sample values\<close>

definition sample_player :: player where
  "sample_player = \<lparr>track_id = 4, bbox = (2, 3, 12, 23), openscore = None\<rparr>"

definition sample_feedback :: feedback where
  \<comment> \<open>A play with no scored receiver: every list is empty. One context entry, for
      track 4, and no AI explanation.\<close>
  "sample_feedback =
     \<lparr>overall_grade = ''F'', overall_score = 0, summary = ''No receivers were tracked.'',
      statistics = \<lparr>total_receivers_tracked = 0, avg_openscore_all_receivers = 0,
                     total_players_detected = 3\<rparr>,
      strengths = [], areas_for_improvement = [], recommendations = [], best_options = [],
      missed_opportunities = [], key_moments = [],
      ai_openscore_explanations = None,
      player_contexts =
        Some [''player_4'' \<mapsto> \<lparr>nearest_defender_distance = 1920, num_nearby_defenders = 2,
                                closing_speed = 0\<rparr>]\<rparr>"

definition sample_body :: results_body where
  \<comment> \<open>Frames 6 and 8 are present, frame 7 is a gap; the payload says the video is 1280
      by 720 at 30 frames per second.\<close>
  "sample_body =
     \<lparr>rb_feedback = sample_feedback, rb_fps = Some 30,
      rb_frame_data = Some [\<lparr>frame_id = 6, players = Some [sample_player]\<rparr>,
                            \<lparr>frame_id = 8, players = None\<rparr>],
      rb_video_width = Some 1280, rb_video_height = Some 720\<rparr>"


definition sample_upload :: upload_response where
  "sample_upload = \<lparr>up_task_id = Some ''t1'', up_status = Some ''queued''\<rparr>"

definition processing_at :: "rat \<Rightarrow> status_data" where
  "processing_at n =
     \<lparr>sd_status = Some ''processing'', sd_progress = Some n, sd_message = None\<rparr>"

definition completed_data :: status_data where
  "completed_data =
     \<lparr>sd_status = Some ''completed'', sd_progress = Some 100, sd_message = None\<rparr>"

definition failed_data :: status_data where
  "failed_data =
     \<lparr>sd_status = Some ''failed'', sd_progress = None, sd_message = Some ''Video has no frames''\<rparr>"

definition sample_mp4 :: upload_file where
  "sample_mp4 = \<lparr>file_name = ''play.mp4'', file_type = ''video/mp4'', file_size = 1048576\<rparr>"

definition sample_mov :: upload_file where
  "sample_mov = \<lparr>file_name = ''play.mov'', file_type = ''video/quicktime'', file_size = 1048576\<rparr>"

section \<open>Evaluating number formatting\<close>

lemma show_nat_digit: "n < 10 \<Longrightarrow> show_nat n = [digit_char n]"
  by (simp add: show_nat.simps[of n])

lemma show_nat_more:
  "10 \<le> n \<Longrightarrow> show_nat n = show_nat (n div 10) @ [digit_char (n mod 10)]"
  by (simp add: show_nat.simps[of n])

lemma floor_rat_numeral_div:
  "\<lfloor>(numeral a :: rat) / numeral b\<rfloor> = numeral a div numeral b"
  using floor_divide_of_int_eq [of "numeral a" "numeral b", where ?'a = rat] by simp

lemma floor_rat_one_div: "\<lfloor>(1 :: rat) / numeral b\<rfloor> = 1 div numeral b"
  using floor_divide_of_int_eq [of 1 "numeral b", where ?'a = rat] by simp

lemmas format_eval =
  show_nat_digit show_nat_more digit_char_def show_int_def toFixed1_def
  floor_rat_numeral_div floor_rat_one_div

lemma toFixed1_zero: "toFixed1 0 = ''0.0''"
  by (simp add: format_eval)

lemma num_or_absent_is_zero: "num_or None 0 = 0" "num_or (Some 0) 0 = 0"
  by (simp_all add: num_or_def or_num_def)

section \<open>Properties of the frame-to-players map\<close>

lemma framePlayerMap_from_other:
  "\<forall>g \<in> set frs. frame_id g \<noteq> k \<Longrightarrow> framePlayerMap_from m frs k = m k"
  by (induction frs arbitrary: m) auto

lemma framePlayerMap_from_append:
  "framePlayerMap_from m (xs @ ys) = framePlayerMap_from (framePlayerMap_from m xs) ys"
  by (induction xs arbitrary: m) auto

lemma framePlayerMap_absent:
  "\<forall>g \<in> set frameData. frame_id g \<noteq> k \<Longrightarrow> framePlayerMap frameData k = None"
  by (simp add: framePlayerMap_def framePlayerMap_from_other)

text \<open>
  Claim C9: when several entries of frame_data carry the same frame_id, the map holds the
  players list (the empty list when the entry has none) of the last of them in list order:
  splitting the list at an entry that no later entry repeats, the map sends that entry's
  frame_id to that entry's players. The map is a function of the ordered list alone.
\<close>

theorem framePlayerMap_last_entry_wins:
  assumes "frameData = before @ fr # after"
    and "\<forall>g \<in> set after. frame_id g \<noteq> frame_id fr"
  shows "framePlayerMap frameData (frame_id fr) = Some (list_or_empty (players fr))"
proof -
  let ?m = "framePlayerMap_from Map.empty before"
  have "framePlayerMap frameData (frame_id fr) =
        framePlayerMap_from (?m(frame_id fr \<mapsto> list_or_empty (players fr))) after (frame_id fr)"
    by (simp add: framePlayerMap_def assms(1) framePlayerMap_from_append)
  also have "\<dots> = (?m(frame_id fr \<mapsto> list_or_empty (players fr))) (frame_id fr)"
    using assms(2) by (rule framePlayerMap_from_other)
  finally show ?thesis by simp
qed

theorem framePlayerMap_last_entry_wins_witness:
  "framePlayerMap
     [\<lparr>frame_id = 7, players = Some [\<lparr>track_id = 1, bbox = (0, 0, 10, 10), openscore = Some 40\<rparr>]\<rparr>,
      \<lparr>frame_id = 8, players = None\<rparr>,
      \<lparr>frame_id = 7, players = Some [\<lparr>track_id = 2, bbox = (5, 5, 9, 9), openscore = None\<rparr>]\<rparr>,
      \<lparr>frame_id = 9, players = Some []\<rparr>] 7
   = Some [\<lparr>track_id = 2, bbox = (5, 5, 9, 9), openscore = None\<rparr>]"
  using framePlayerMap_last_entry_wins
    [of "[\<lparr>frame_id = 7, players = Some [\<lparr>track_id = 1, bbox = (0, 0, 10, 10), openscore = Some 40\<rparr>]\<rparr>,
          \<lparr>frame_id = 8, players = None\<rparr>,
          \<lparr>frame_id = 7, players = Some [\<lparr>track_id = 2, bbox = (5, 5, 9, 9), openscore = None\<rparr>]\<rparr>,
          \<lparr>frame_id = 9, players = Some []\<rparr>]"
        "[\<lparr>frame_id = 7, players = Some [\<lparr>track_id = 1, bbox = (0, 0, 10, 10), openscore = Some 40\<rparr>]\<rparr>,
          \<lparr>frame_id = 8, players = None\<rparr>]"
        "\<lparr>frame_id = 7, players = Some [\<lparr>track_id = 2, bbox = (5, 5, 9, 9), openscore = None\<rparr>]\<rparr>"
        "[\<lparr>frame_id = 9, players = Some []\<rparr>]"]
  by (simp add: list_or_empty_def)

text \<open>
  Claim C7: for every playback time whose frame id (the floor of time times fps, never
  below 0) has no entry in frame_data, the handler sets the active players to the empty
  list; more generally the lookup with its fallback is defined for every frame id, and
  yields the empty list at each id that frame_data does not mention. The handler has no
  failing branch: a missing key is a value of the lookup, not an exception.
\<close>

theorem updateActivePlayers_gap_is_empty:
  assumes "\<forall>g \<in> set (frameData_of r). frame_id g \<noteq> k"
  shows "map_get_or_empty (framePlayerMap (frameData_of r)) k = [] \<and>
         (frameIdAt (currentTime v) (fps_of r) = k \<longrightarrow>
            activePlayers (updateActivePlayersForCurrentTime r (Some v) st) = [])"
  using assms
  by (simp add: updateActivePlayersForCurrentTime_def map_get_or_empty_def
      framePlayerMap_absent list_or_empty_def)

theorem updateActivePlayers_gap_is_empty_witness:
  "frameIdAt (currentTime \<lparr>currentTime = 1 / 4, paused = True, videoWidth = 0, videoHeight = 0\<rparr>)
     (fps_of sample_body) = 7 \<and>
   map_get_or_empty (framePlayerMap (frameData_of sample_body)) 7 = [] \<and>
   activePlayers
     (updateActivePlayersForCurrentTime sample_body
        (Some \<lparr>currentTime = 1 / 4, paused = True, videoWidth = 0, videoHeight = 0\<rparr>)
        \<lparr>activePlayers = [\<lparr>track_id = 4, bbox = (2, 3, 12, 23), openscore = None\<rparr>],
         hoveredPlayer = None, tooltipPos = (0, 0)\<rparr>) = []"
proof -
  have t: "frameIdAt (currentTime \<lparr>currentTime = 1 / 4, paused = True, videoWidth = 0, videoHeight = 0\<rparr>)
             (fps_of sample_body) = 7"
    by (simp add: frameIdAt_def fps_of_def sample_body_def num_or_def or_num_def
        floor_rat_numeral_div)
  have g: "\<forall>g \<in> set (frameData_of sample_body). frame_id g \<noteq> 7"
    by (simp add: frameData_of_def sample_body_def list_or_empty_def)
  show ?thesis
    using t updateActivePlayers_gap_is_empty [OF g,
        of "\<lparr>currentTime = 1 / 4, paused = True, videoWidth = 0, videoHeight = 0\<rparr>"
           "\<lparr>activePlayers = [\<lparr>track_id = 4, bbox = (2, 3, 12, 23), openscore = None\<rparr>],
             hoveredPlayer = None, tooltipPos = (0, 0)\<rparr>"]
    by simp
qed

section \<open>Properties of hover hit-testing\<close>

lemma hitTest_finite: "hitTest (Fin px, Fin py) p = box_contains p px py"
  by (simp add: hitTest_def box_contains_def split: prod.splits)

lemma hitTest_not_finite:
  "(\<nexists>px. fst pt = Fin px) \<or> (\<nexists>py. snd pt = Fin py) \<Longrightarrow> \<not> hitTest pt p"
  by (cases pt; cases "fst pt"; cases "snd pt") (auto simp: hitTest_def split: prod.splits)

lemma hoveredPlayer_handleOverlayMouseMove:
  "hoveredPlayer (handleOverlayMouseMove r videoEl overlayEl e st) =
     (case videoEl of
        None \<Rightarrow> None
      | Some v \<Rightarrow>
         (case overlayEl of
            None \<Rightarrow> None
          | Some rect \<Rightarrow>
              if paused v
              then find (hitTest (cursorPoint rect (sourceWidth r) (sourceHeight r) v e))
                     (activePlayers st)
              else None))"
  by (simp add: handleOverlayMouseMove_def split: option.splits)

lemma handleOverlayMouseMove_flat_overlay:
  assumes "rect_width rect = 0 \<or> rect_height rect = 0"
  shows "hoveredPlayer (handleOverlayMouseMove r videoEl (Some rect) e st) = None"
proof -
  have "\<not> hitTest (cursorPoint rect (sourceWidth r) (sourceHeight r) v e) p" for v p
    using assms
    by (intro hitTest_not_finite)
       (auto simp: cursorPoint_def Let_def js_div_def nativeSize_def or_num_def)
  then show ?thesis
    by (auto simp: hoveredPlayer_handleOverlayMouseMove find_None_iff split: option.splits)
qed

text \<open>
  Claim C10: with the video paused and the cursor at the native point \<open>(px, py)\<close>, the
  hovered player is the first player of the current list whose box contains the point,
  bounds included: it is hovered exactly when it stands at an index whose box contains the
  point while no earlier index does. No player is hovered exactly when no box contains
  the point, and none is hovered while the video plays. The result is a function of the
  point and the list.
\<close>

theorem handleOverlayMouseMove_first_hit:
  assumes "cursorPoint rect (sourceWidth r) (sourceHeight r) v e = (Fin px, Fin py)"
  shows "(paused v \<longrightarrow>
            (hoveredPlayer (handleOverlayMouseMove r (Some v) (Some rect) e st) = Some p
               \<longleftrightarrow> (\<exists>i < length (activePlayers st).
                      activePlayers st ! i = p \<and> box_contains p px py \<and>
                      (\<forall>j < i. \<not> box_contains (activePlayers st ! j) px py))) \<and>
            (hoveredPlayer (handleOverlayMouseMove r (Some v) (Some rect) e st) = None
               \<longleftrightarrow> (\<forall>q \<in> set (activePlayers st). \<not> box_contains q px py))) \<and>
         (\<not> paused v \<longrightarrow>
            hoveredPlayer (handleOverlayMouseMove r (Some v) (Some rect) e st) = None)"
  using assms
  by (auto simp: hoveredPlayer_handleOverlayMouseMove find_Some_iff find_None_iff
      hitTest_finite)

theorem handleOverlayMouseMove_first_hit_witness:
  "cursorPoint \<lparr>rect_left = 0, rect_top = 0, rect_width = 640, rect_height = 360\<rparr>
     (sourceWidth sample_body) (sourceHeight sample_body)
     \<lparr>currentTime = 1 / 5, paused = True, videoWidth = 1280, videoHeight = 720\<rparr>
     \<lparr>clientX = 5, clientY = 10\<rparr> = (Fin 10, Fin 20) \<and>
   hoveredPlayer
     (handleOverlayMouseMove sample_body
        (Some \<lparr>currentTime = 1 / 5, paused = True, videoWidth = 1280, videoHeight = 720\<rparr>)
        (Some \<lparr>rect_left = 0, rect_top = 0, rect_width = 640, rect_height = 360\<rparr>)
        \<lparr>clientX = 5, clientY = 10\<rparr>
        \<lparr>activePlayers =
           [\<lparr>track_id = 1, bbox = (20, 20, 30, 30), openscore = Some 55\<rparr>,
            sample_player,
            \<lparr>track_id = 9, bbox = (0, 0, 100, 100), openscore = Some 70\<rparr>],
         hoveredPlayer = None, tooltipPos = (0, 0)\<rparr>) = Some sample_player"
proof -
  let ?v = "\<lparr>currentTime = 1 / 5, paused = True, videoWidth = 1280, videoHeight = 720\<rparr>"
  let ?rect = "\<lparr>rect_left = 0, rect_top = 0, rect_width = 640, rect_height = 360\<rparr>"
  let ?e = "\<lparr>clientX = 5, clientY = 10\<rparr>"
  let ?st = "\<lparr>activePlayers =
               [\<lparr>track_id = 1, bbox = (20, 20, 30, 30), openscore = Some 55\<rparr>,
                sample_player,
                \<lparr>track_id = 9, bbox = (0, 0, 100, 100), openscore = Some 70\<rparr>],
             hoveredPlayer = None, tooltipPos = (0, 0)\<rparr>"
  have cp: "cursorPoint ?rect (sourceWidth sample_body) (sourceHeight sample_body) ?v ?e
              = (Fin 10, Fin 20)"
    by (simp add: cursorPoint_def sourceWidth_def sourceHeight_def sample_body_def num_or_def
        or_num_def nativeSize_def js_div_def)
  have first: "\<exists>i < length (activePlayers ?st).
                 activePlayers ?st ! i = sample_player \<and> box_contains sample_player 10 20 \<and>
                 (\<forall>j < i. \<not> box_contains (activePlayers ?st ! j) 10 20)"
    by (rule exI [of _ 1]) (simp add: box_contains_def sample_player_def)
  show ?thesis
    using cp first handleOverlayMouseMove_first_hit [OF cp, of ?st sample_player]
    by simp
qed

section \<open>Properties of the player tooltip\<close>

text \<open>
  Claim C1, as the code has it: a player entry that carries no openscore value is shown
  with the fallback number 0. The tooltip is the very tooltip of a player whose openscore
  is 0: its score line reads \<open>OpenScore: 0.0\<close>, and in the revision with AI
  explanations the label is \<open>Locked Down\<close> in the colour of the lowest band. The display
  does not tell an absent sample from a zero score.
\<close>

theorem tooltip_absent_score_shows_zero:
  "playerTooltip (st\<lparr>hoveredPlayer := Some (p\<lparr>openscore := None\<rparr>)\<rparr>) =
     playerTooltip (st\<lparr>hoveredPlayer := Some (p\<lparr>openscore := Some 0\<rparr>)\<rparr>) \<and>
   playerTooltipAI r (st\<lparr>hoveredPlayer := Some (p\<lparr>openscore := None\<rparr>)\<rparr>) =
     playerTooltipAI r (st\<lparr>hoveredPlayer := Some (p\<lparr>openscore := Some 0\<rparr>)\<rparr>) \<and>
   map_option tip_score_line
     (playerTooltip (st\<lparr>hoveredPlayer := Some (p\<lparr>openscore := None\<rparr>)\<rparr>)) =
     Some ''OpenScore: 0.0'' \<and>
   map_option tip_score_line
     (playerTooltipAI r (st\<lparr>hoveredPlayer := Some (p\<lparr>openscore := None\<rparr>)\<rparr>)) =
     Some ''OpenScore: 0.0'' \<and>
   map_option tip_score_label
     (playerTooltipAI r (st\<lparr>hoveredPlayer := Some (p\<lparr>openscore := None\<rparr>)\<rparr>)) =
     Some (Some ''Locked Down'') \<and>
   map_option tip_score_color
     (playerTooltipAI r (st\<lparr>hoveredPlayer := Some (p\<lparr>openscore := None\<rparr>)\<rparr>)) =
     Some (Some ''#ef4444'')"
  by (simp add: playerTooltip_def playerTooltipAI_def num_or_absent_is_zero toFixed1_zero
      getScoreLabel_def getScoreColor_def getPlayerTooltipExplanation_def)

text \<open>
  The claim as stated fails: a receiver whose entry has no openscore, hovered in either
  revision, is reported with the score \<open>0.0\<close>.
\<close>

theorem tooltip_absent_score_counterexample:
  "openscore sample_player = None \<and>
   map_option tip_score_line
     (playerTooltip
        \<lparr>activePlayers = [sample_player], hoveredPlayer = Some sample_player,
         tooltipPos = (100, 50)\<rparr>) = Some ''OpenScore: 0.0'' \<and>
   map_option tip_score_line
     (playerTooltipAI sample_body
        \<lparr>activePlayers = [sample_player], hoveredPlayer = Some sample_player,
         tooltipPos = (100, 50)\<rparr>) = Some ''OpenScore: 0.0''"
  by (simp add: playerTooltip_def playerTooltipAI_def sample_player_def
      num_or_absent_is_zero toFixed1_zero)

section \<open>Where the scale factors come from\<close>




section \<open>Rendering a result without feedback lists\<close>

text \<open>
  Claim C6: when the six feedback lists (strengths, areas_for_improvement,
  recommendations, best_options, missed_opportunities, key_moments) are all empty, the
  component renders (it does not return null, and with the payload's fields in place none
  of its reads can fail), and the output is the heading, the grade card, the statistics grid, the two-column container with no
  child, and the closing block (video player or download link): none of the six list
  sections is part of the output.
\<close>

theorem AnalysisResults_without_lists:
  assumes "strengths (rb_feedback r) = []"
    and "areas_for_improvement (rb_feedback r) = []"
    and "recommendations (rb_feedback r) = []"
    and "best_options (rb_feedback r) = []"
    and "missed_opportunities (rb_feedback r) = []"
    and "key_moments (rb_feedback r) = []"
  shows "AnalysisResults (Some \<lparr>rr_results = Some r\<rparr>) tid videoEl st =
           Some [Heading ''Analysis Complete'',
                 GradeSection (getGradeColor (overall_grade (rb_feedback r)))
                   (overall_grade (rb_feedback r)) (overall_score (rb_feedback r))
                   (summary (rb_feedback r)),
                 StatsGrid (total_receivers_tracked (statistics (rb_feedback r)))
                   (toFixed1 (avg_openscore_all_receivers (statistics (rb_feedback r))))
                   (total_players_detected (statistics (rb_feedback r))),
                 FeedbackGrid [],
                 VideoPlayerSection (getDownloadUrl tid) (hoverBoxes r videoEl st)
                   (playerTooltip st)] \<and>
         AnalysisResultsDownload (Some \<lparr>rr_results = Some r\<rparr>) tid =
           Some [Heading ''Analysis Complete'',
                 GradeSection (getGradeColor (overall_grade (rb_feedback r)))
                   (overall_grade (rb_feedback r)) (overall_score (rb_feedback r))
                   (summary (rb_feedback r)),
                 StatsGrid (total_receivers_tracked (statistics (rb_feedback r)))
                   (toFixed1 (avg_openscore_all_receivers (statistics (rb_feedback r))))
                   (total_players_detected (statistics (rb_feedback r))),
                 FeedbackGrid [],
                 DownloadSection (getDownloadUrl tid)]"
  using assms by (simp add: AnalysisResults_def AnalysisResultsDownload_def feedbackSections_def)

theorem AnalysisResults_without_lists_witness:
  "AnalysisResults (Some \<lparr>rr_results = Some sample_body\<rparr>) (Some ''t1'') None
     \<lparr>activePlayers = [], hoveredPlayer = None, tooltipPos = (0, 0)\<rparr> =
     Some [Heading ''Analysis Complete'',
           GradeSection ''#ef4444'' ''F'' 0 ''No receivers were tracked.'',
           StatsGrid 0 ''0.0'' 3,
           FeedbackGrid [],
           VideoPlayerSection ''http://localhost:8000/api/download/t1'' [] None] \<and>
   AnalysisResultsDownload (Some \<lparr>rr_results = Some sample_body\<rparr>) (Some ''t1'') =
     Some [Heading ''Analysis Complete'',
           GradeSection ''#ef4444'' ''F'' 0 ''No receivers were tracked.'',
           StatsGrid 0 ''0.0'' 3,
           FeedbackGrid [],
           DownloadSection ''http://localhost:8000/api/download/t1'']"
  using AnalysisResults_without_lists [of sample_body "Some ''t1''" None
      "\<lparr>activePlayers = [], hoveredPlayer = None, tooltipPos = (0, 0)\<rparr>"]
  by (simp add: sample_body_def sample_feedback_def getGradeColor_def getDownloadUrl_def
      API_BASE_URL_def hoverBoxes_def playerTooltip_def toFixed1_zero)

section \<open>Properties of status polling\<close>

lemmas client_eval =
  initial_client_def initial_app_def handleUploadSuccess_def handleUploadError_def
  handleReset_def runEffect_def pollingWanted_def str_truthy_def str_or_def onStatusData_def
  onResultsData_def onPollError_def drop_nth_def num_or_def or_num_def clearInterval_def
  sample_upload_def processing_at_def completed_data_def failed_data_def

lemma step_keeps_interval_wanted:
  assumes "step c e = Some c'"
    and "interval c \<noteq> None \<longrightarrow> pollingWanted (app c)"
  shows "interval c' \<noteq> None \<longrightarrow> pollingWanted (app c')"
proof (cases e)
  case Tick
  with assms show ?thesis by (auto split: option.splits)
next
  case (StatusArrives i d)
  with assms show ?thesis
    by (auto simp: Let_def runEffect_def clearInterval_def onStatusData_def pollingWanted_def
        split: if_splits)
next
  case (StatusFails i err)
  with assms show ?thesis
    by (auto simp: clearInterval_def onPollError_def pollingWanted_def split: if_splits)
next
  case (ResultsArrive j d)
  with assms show ?thesis
    by (auto simp: clearInterval_def onResultsData_def pollingWanted_def split: if_splits)
next
  case (ResultsFail j err)
  with assms show ?thesis
    by (auto simp: clearInterval_def onPollError_def pollingWanted_def split: if_splits)
next
  case (UploadSucceeds response)
  with assms show ?thesis
    by (auto simp: runEffect_def pollingWanted_def split: if_splits)
next
  case (UploadFails msg)
  with assms show ?thesis
    by (auto simp: handleUploadError_def pollingWanted_def split: if_splits)
next
  case ResetClicked
  with assms show ?thesis
    by (auto simp: runEffect_def pollingWanted_def split: if_splits)
qed

lemma run_keeps_interval_wanted:
  "run c es = Some c' \<Longrightarrow> (interval c \<noteq> None \<longrightarrow> pollingWanted (app c))
     \<Longrightarrow> interval c' \<noteq> None \<longrightarrow> pollingWanted (app c')"
proof (induction es arbitrary: c)
  case Nil
  then show ?case by simp
next
  case (Cons e es)
  from Cons.prems(1) obtain c1 where s: "step c e = Some c1" and r: "run c1 es = Some c'"
    by (auto split: option.splits)
  from step_keeps_interval_wanted [OF s Cons.prems(2)] Cons.IH [OF r] show ?case by blast
qed

lemma reachable_interval_wanted:
  "run initial_client es = Some c \<Longrightarrow> interval c \<noteq> None \<Longrightarrow> pollingWanted (app c)"
  using run_keeps_interval_wanted [of initial_client es c]
  by (simp add: initial_client_def)

lemma run_ticks_keeps_app:
  "run c es = Some c' \<Longrightarrow> set es \<subseteq> {Tick} \<Longrightarrow> app c' = app c"
proof (induction es arbitrary: c)
  case Nil
  then show ?case by simp
next
  case (Cons e es)
  from Cons.prems(2) have e: "e = Tick" and es: "set es \<subseteq> {Tick}" by auto
  from Cons.prems(1) e obtain c1 where s: "step c Tick = Some c1" and r: "run c1 es = Some c'"
    by (auto split: option.splits)
  from s have "app c1 = app c" by (auto split: option.splits)
  with Cons.IH [OF r es] show ?case by simp
qed

lemma progress_after_status:
  "step c (StatusArrives i d) = Some c' \<Longrightarrow> progress (app c') = num_or (sd_progress d) 0"
  by (auto simp: Let_def runEffect_def clearInterval_def onStatusData_def split: if_splits)

text \<open>
  Claim C3, as the code has it: after each status poll the client holds the progress
  value of that poll's response, and 0 when the response carries none. Between two
  consecutive responses (any number of interval ticks apart) the held value is
  non-decreasing exactly when the reported values are; the client keeps no maximum and
  does not compare a response with the value it holds.
\<close>

theorem stored_progress_mirrors_response:
  assumes "step c (StatusArrives i d1) = Some c1"
    and "run c1 ticks = Some c1'" and "set ticks \<subseteq> {Tick}"
    and "step c1' (StatusArrives j d2) = Some c2"
  shows "progress (app c1) = num_or (sd_progress d1) 0 \<and>
         progress (app c1') = progress (app c1) \<and>
         progress (app c2) = num_or (sd_progress d2) 0 \<and>
         (progress (app c1) \<le> progress (app c2)
            \<longleftrightarrow> num_or (sd_progress d1) 0 \<le> num_or (sd_progress d2) 0)"
  using progress_after_status [OF assms(1)] progress_after_status [OF assms(4)]
    run_ticks_keeps_app [OF assms(2) assms(3)]
  by simp

theorem stored_progress_mirrors_response_witness:
  "\<exists>c c1 c1' c2.
     run initial_client [UploadSucceeds sample_upload, Tick] = Some c \<and>
     step c (StatusArrives 0 (processing_at 30)) = Some c1 \<and>
     run c1 [Tick] = Some c1' \<and>
     step c1' (StatusArrives 0 (processing_at 50)) = Some c2 \<and>
     progress (app c1) = 30 \<and> progress (app c1') = 30 \<and> progress (app c2) = 50 \<and>
     progress (app c1) \<le> progress (app c2)"
proof -
  define c where "c = the (run initial_client [UploadSucceeds sample_upload, Tick])"
  define c1 where "c1 = the (step c (StatusArrives 0 (processing_at 30)))"
  define c1' where "c1' = the (run c1 [Tick])"
  define c2 where "c2 = the (step c1' (StatusArrives 0 (processing_at 50)))"
  have r0: "run initial_client [UploadSucceeds sample_upload, Tick] = Some c"
    by (simp add: c_def client_eval)
  have s1: "step c (StatusArrives 0 (processing_at 30)) = Some c1"
    by (simp add: c1_def c_def client_eval)
  have r1: "run c1 [Tick] = Some c1'"
    by (simp add: c1'_def c1_def c_def client_eval)
  have s2: "step c1' (StatusArrives 0 (processing_at 50)) = Some c2"
    by (simp add: c2_def c1'_def c1_def c_def client_eval)
  have t: "set [Tick] \<subseteq> {Tick}" by simp
  from stored_progress_mirrors_response [OF s1 r1 t s2]
  have "progress (app c1) = 30 \<and> progress (app c1') = 30 \<and> progress (app c2) = 50 \<and>
        progress (app c1) \<le> progress (app c2)"
    by (simp add: processing_at_def num_or_def or_num_def)
  with r0 s1 r1 s2 show ?thesis by blast
qed

text \<open>
  The claim as stated fails: the status is processing after both polls, the first
  response reports 50 and the next one 30, and the held progress moves from 50 back to 30.
\<close>

theorem stored_progress_counterexample:
  "map_option (\<lambda>c. (status (app c), progress (app c)))
     (run initial_client
        [UploadSucceeds sample_upload, Tick, StatusArrives 0 (processing_at 50)]) =
     Some (Some ''processing'', 50) \<and>
   map_option (\<lambda>c. (status (app c), progress (app c)))
     (run initial_client
        [UploadSucceeds sample_upload, Tick, StatusArrives 0 (processing_at 50),
         Tick, StatusArrives 0 (processing_at 30)]) =
     Some (Some ''processing'', 30)"
  by (simp add: client_eval)

text \<open>
  Claim C4 says that completed and failed are terminal: once the client has seen either,
  it stops polling and the status stays as it is until a reset. The run below departs
  from it. Two ticks start two status requests for the same task before either is
  answered. The answer to the second one arrives first and says
  completed: the status is completed, the interval is gone, and neither a tick nor a reset
  nor an upload can happen. Then the answer to the first request arrives and says
  processing: the continuation sets the status without looking at the one it replaces,
  and the effect, whose dependency changed, starts a new interval. No reset is part of the
  run.
\<close>

theorem late_response_reopens_completed:
  "map_option (\<lambda>c. (status (app c), interval c, status_calls c))
     (run initial_client
        [UploadSucceeds sample_upload, Tick, Tick, StatusArrives 1 completed_data]) =
     Some (Some ''completed'', None, [(0, Some ''t1'')]) \<and>
   run initial_client
     [UploadSucceeds sample_upload, Tick, Tick, StatusArrives 1 completed_data, Tick] = None \<and>
   run initial_client
     [UploadSucceeds sample_upload, Tick, Tick, StatusArrives 1 completed_data, ResetClicked] =
     None \<and>
   map_option (\<lambda>c. (status (app c), interval c, status_calls c))
     (run initial_client
        [UploadSucceeds sample_upload, Tick, Tick, StatusArrives 1 completed_data,
         StatusArrives 0 (processing_at 40)]) =
     Some (Some ''processing'', Some 1, [])"
  by (simp add: client_eval)

text \<open>
  What does hold: in a state the client can reach, with a task id, a status of completed
  or failed and no status request in flight, no tick can happen, and whatever happens
  short of a reset leaves the status as it is.
\<close>

lemma run_append:
  "run c (xs @ ys) = (case run c xs of None \<Rightarrow> None | Some c1 \<Rightarrow> run c1 ys)"
  by (induction xs arbitrary: c) (auto split: option.splits)

lemma terminal_step_stable:
  assumes "run initial_client es = Some c"
    and "status (app c) = Some ''completed'' \<or> status (app c) = Some ''failed''"
    and "str_truthy (taskId (app c))"
    and "status_calls c = []"
    and "step c e = Some c'"
    and "e \<noteq> ResetClicked"
  shows "e \<noteq> Tick \<and> status (app c') = status (app c) \<and>
         taskId (app c') = taskId (app c) \<and> status_calls c' = []"
proof -
  from assms(2) have "\<not> pollingWanted (app c)" by (auto simp: pollingWanted_def)
  with reachable_interval_wanted [OF assms(1)] have none: "interval c = None" by blast
  show ?thesis
  proof (cases e)
    case Tick
    with assms(5) none show ?thesis by simp
  next
    case (StatusArrives i d)
    with assms(4,5) show ?thesis by simp
  next
    case (StatusFails i err)
    with assms(4,5) show ?thesis by simp
  next
    case (ResultsArrive j d)
    with assms(4,5) show ?thesis
      by (auto simp: clearInterval_def onResultsData_def split: if_splits)
  next
    case (ResultsFail j err)
    with assms(4,5) show ?thesis
      by (auto simp: clearInterval_def onPollError_def split: if_splits)
  next
    case (UploadSucceeds response)
    with assms(3,5) show ?thesis by simp
  next
    case (UploadFails msg)
    with assms(3,5) show ?thesis by simp
  next
    case ResetClicked
    with assms(6) show ?thesis by simp
  qed
qed

lemma terminal_status_stable_without_calls:
  assumes "run initial_client es = Some c"
    and "status (app c) = Some ''completed'' \<or> status (app c) = Some ''failed''"
    and "str_truthy (taskId (app c))"
    and "status_calls c = []"
    and "run c rest = Some c'"
    and "ResetClicked \<notin> set rest"
  shows "status (app c') = status (app c) \<and> Tick \<notin> set rest"
  using assms
proof (induction rest arbitrary: c es)
  case Nil
  then show ?case by simp
next
  case (Cons e rest)
  from Cons.prems(5) obtain c1 where s: "step c e = Some c1" and r: "run c1 rest = Some c'"
    by (auto split: option.splits)
  from Cons.prems(6) have ne: "e \<noteq> ResetClicked" and nm: "ResetClicked \<notin> set rest"
    by auto
  from terminal_step_stable [OF Cons.prems(1-4) s ne]
  have k: "e \<noteq> Tick" "status (app c1) = status (app c)"
    "taskId (app c1) = taskId (app c)" "status_calls c1 = []"
    by simp_all
  have reach: "run initial_client (es @ [e]) = Some c1"
    using Cons.prems(1) s by (simp add: run_append)
  from Cons.IH [OF reach _ _ k(4) r nm] Cons.prems(2,3) k
  show ?case by simp
qed

text \<open>
  Claim C5: whenever a status poll returns failed, in any state the client can reach, the
  client holds a reason that is not empty (the response's message, or
  \<open>Processing failed\<close> when the message is absent or empty), App renders the error
  section with that reason, the status is failed, and no interval is left running.
\<close>

theorem failed_status_is_surfaced:
  assumes "run initial_client es = Some c"
    and "step c (StatusArrives i statusData) = Some c'"
    and "sd_status statusData = Some ''failed''"
  shows "(let reason = (case sd_message statusData of
                          None \<Rightarrow> ''Processing failed''
                        | Some m \<Rightarrow> if m = [] then ''Processing failed'' else m)
          in reason \<noteq> [] \<and> error (app c') = Some reason \<and>
             ErrorSection reason \<in> set (App_render (app c')) \<and>
             status (app c') = Some ''failed'' \<and> interval c' = None)"
proof -
  let ?reason = "case sd_message statusData of
                   None \<Rightarrow> ''Processing failed''
                 | Some m \<Rightarrow> if m = [] then ''Processing failed'' else m"
  have nonempty: "?reason \<noteq> []" by (simp split: option.splits)
  from assms(2) have i: "i < length (status_calls c)" by (simp split: if_splits)
  have a: "app c' = (app c)\<lparr>status := Some ''failed'',
                               progress := num_or (sd_progress statusData) 0,
                               error := Some ?reason\<rparr>"
    using assms(2,3) i
    by (auto simp: Let_def runEffect_def clearInterval_def onStatusData_def str_or_def
        split: option.splits)
  have shown: "ErrorSection ?reason \<in> set (App_render (app c'))"
    using nonempty by (simp add: a App_render_def)
  have stopped: "interval c' = None"
  proof (cases "status (app c) = Some ''failed''")
    case True
    then have "\<not> pollingWanted (app c)" by (simp add: pollingWanted_def)
    with reachable_interval_wanted [OF assms(1)] have "interval c = None" by blast
    with assms(2,3) i show ?thesis
      by (auto simp: Let_def runEffect_def clearInterval_def onStatusData_def pollingWanted_def)
  next
    case False
    with assms(2,3) i show ?thesis
      by (auto simp: Let_def runEffect_def clearInterval_def onStatusData_def pollingWanted_def)
  qed
  from nonempty a shown stopped show ?thesis by (simp add: Let_def)
qed

theorem failed_status_is_surfaced_witness:
  "\<exists>c c'.
     run initial_client [UploadSucceeds sample_upload, Tick] = Some c \<and>
     step c (StatusArrives 0 failed_data) = Some c' \<and>
     error (app c') = Some ''Video has no frames'' \<and>
     App_render (app c') =
       [ProcessingSection ''Processing failed'' 0, ErrorSection ''Video has no frames''] \<and>
     status (app c') = Some ''failed'' \<and> interval c' = None"
proof -
  define c where "c = the (run initial_client [UploadSucceeds sample_upload, Tick])"
  define c' where "c' = the (step c (StatusArrives 0 failed_data))"
  have r0: "run initial_client [UploadSucceeds sample_upload, Tick] = Some c"
    by (simp add: c_def client_eval)
  have s1: "step c (StatusArrives 0 failed_data) = Some c'"
    by (simp add: c'_def c_def client_eval)
  have f: "sd_status failed_data = Some ''failed''" by (simp add: failed_data_def)
  from failed_status_is_surfaced [OF r0 s1 f]
  have "error (app c') = Some ''Video has no frames'' \<and> status (app c') = Some ''failed'' \<and>
        interval c' = None"
    by (simp add: failed_data_def Let_def)
  moreover have "App_render (app c') =
       [ProcessingSection ''Processing failed'' 0, ErrorSection ''Video has no frames'']"
    by (simp add: c'_def c_def client_eval App_render_def getStatusMessage_def)
  ultimately show ?thesis using r0 s1 by blast
qed

section \<open>Properties of the drop handler\<close>

text \<open>
  Claim C8: the handler posts a file only when the dropzone rejected nothing, and then it
  posts the first accepted file. For every drop with a rejection the handler issues no
  upload request, and it sets the error shown below the dropzone from the first error of
  the first rejection: \<open>Only MP4 files are allowed\<close> for an invalid type,
  \<open>Please upload only one file at a time\<close> for too many files, and the dropzone's own
  message for any other code. (A rejection always carries at least one error.)
\<close>

theorem onDrop_uploads_only_accepted:
  "(\<forall>st' effects f.
      onDrop props uploadVideo acceptedFiles rejectedFiles st = Inr (st', effects) \<and>
      PostUpload f \<in> set effects
        \<longrightarrow> rejectedFiles = [] \<and> (\<exists>others. acceptedFiles = f # others)) \<and>
   (rejectedFiles \<noteq> []
      \<longrightarrow> (\<forall>st' effects f.
             onDrop props uploadVideo acceptedFiles rejectedFiles st = Inr (st', effects)
               \<longrightarrow> PostUpload f \<notin> set effects)) \<and>
   (\<forall>rejection further err errs.
      rejectedFiles = rejection # further \<and> rej_errors rejection = err # errs
        \<longrightarrow> (\<exists>st' effects.
               onDrop props uploadVideo acceptedFiles rejectedFiles st = Inr (st', effects) \<and>
               (\<forall>f. PostUpload f \<notin> set effects) \<and>
               uploadError st' =
                 Some (if fe_code err = ''file-invalid-type'' then ''Only MP4 files are allowed''
                       else if fe_code err = ''too-many-files''
                       then ''Please upload only one file at a time''
                       else fe_message err)))"
  by (auto simp: onDrop_def rejectionMessage_def Let_def
      split: list.splits upload_outcome.splits if_splits)

theorem onDrop_uploads_only_accepted_witness:
  "(\<exists>st' effects.
      onDrop \<lparr>has_onUploadSuccess = True, has_onUploadError = True\<rparr>
        (\<lambda>f. UploadResolved sample_upload) []
        [\<lparr>rej_file = sample_mov,
          rej_errors = [\<lparr>fe_code = ''file-invalid-type'',
                         fe_message = ''File type must be video/mp4,.mp4''\<rparr>]\<rparr>]
        \<lparr>isUploading = False, uploadError = None\<rparr> = Inr (st', effects) \<and>
      (\<forall>f. PostUpload f \<notin> set effects) \<and>
      uploadError st' = Some ''Only MP4 files are allowed'') \<and>
   (\<exists>st' effects.
      onDrop \<lparr>has_onUploadSuccess = True, has_onUploadError = True\<rparr>
        (\<lambda>f. UploadResolved sample_upload) []
        [\<lparr>rej_file = sample_mp4,
          rej_errors = [\<lparr>fe_code = ''too-many-files'', fe_message = ''Too many files''\<rparr>]\<rparr>,
         \<lparr>rej_file = sample_mov,
          rej_errors = [\<lparr>fe_code = ''file-invalid-type'',
                         fe_message = ''File type must be video/mp4,.mp4''\<rparr>,
                        \<lparr>fe_code = ''too-many-files'', fe_message = ''Too many files''\<rparr>]\<rparr>]
        \<lparr>isUploading = False, uploadError = None\<rparr> = Inr (st', effects) \<and>
      (\<forall>f. PostUpload f \<notin> set effects) \<and>
      uploadError st' = Some ''Please upload only one file at a time'') \<and>
   onDrop \<lparr>has_onUploadSuccess = True, has_onUploadError = True\<rparr>
     (\<lambda>f. UploadResolved sample_upload) [sample_mp4] []
     \<lparr>isUploading = False, uploadError = Some ''Only MP4 files are allowed''\<rparr> =
     Inr (\<lparr>isUploading = False, uploadError = None\<rparr>,
          [PostUpload sample_mp4, CallOnUploadSuccess sample_upload])"
proof -
  let ?props = "\<lparr>has_onUploadSuccess = True, has_onUploadError = True\<rparr>"
  let ?up = "\<lambda>f :: upload_file. UploadResolved sample_upload"
  let ?st = "\<lparr>isUploading = False, uploadError = None\<rparr>"
  let ?type = "\<lparr>fe_code = ''file-invalid-type'', fe_message = ''File type must be video/mp4,.mp4''\<rparr>"
  let ?many = "\<lparr>fe_code = ''too-many-files'', fe_message = ''Too many files''\<rparr>"
  let ?r1 = "[\<lparr>rej_file = sample_mov, rej_errors = [?type]\<rparr>]"
  let ?r2 = "[\<lparr>rej_file = sample_mp4, rej_errors = [?many]\<rparr>,
             \<lparr>rej_file = sample_mov, rej_errors = [?type, ?many]\<rparr>]"
  have one: "\<exists>st' effects.
      onDrop ?props ?up [] ?r1 ?st = Inr (st', effects) \<and>
      (\<forall>f. PostUpload f \<notin> set effects) \<and>
      uploadError st' = Some ''Only MP4 files are allowed''"
    using onDrop_uploads_only_accepted [of ?props ?up "[]" ?r1 ?st] by simp
  have two: "\<exists>st' effects.
      onDrop ?props ?up [] ?r2 ?st = Inr (st', effects) \<and>
      (\<forall>f. PostUpload f \<notin> set effects) \<and>
      uploadError st' = Some ''Please upload only one file at a time''"
    using onDrop_uploads_only_accepted [of ?props ?up "[]" ?r2 ?st] by simp
  have three: "onDrop ?props ?up [sample_mp4] []
       \<lparr>isUploading = False, uploadError = Some ''Only MP4 files are allowed''\<rparr> =
     Inr (\<lparr>isUploading = False, uploadError = None\<rparr>,
          [PostUpload sample_mp4, CallOnUploadSuccess sample_upload])"
    by (simp add: onDrop_def)
  from one two three show ?thesis by blast
qed

end
